theory Spec2Isabelle
  imports Main "HOL-Library.Word"
begin

section \<open>Values exchanged with the host\<close>

text \<open>
  The terminal relay of \<^verbatim>\<open>src/server/index.js\<close> and \<^verbatim>\<open>src/server/pty-wsl-fallback.js\<close>.
  A chunk of terminal traffic is a sequence of bytes. A JavaScript string is represented
  by the bytes of its UTF-8 encoding (what a pipe receives when the string is written to
  it), a \<^verbatim>\<open>Buffer\<close> by its bytes. Sockets are named by their \<^verbatim>\<open>socket.id\<close>.

  The payload of a \<^verbatim>\<open>terminal.input\<close> event is any value the transport delivers: a string, a
  \<^verbatim>\<open>Buffer\<close>, or another JSON value. \<open>Null\<close> stands for \<^verbatim>\<open>null\<close> and \<^verbatim>\<open>undefined\<close>,
  \<open>Object\<close> for arrays and objects. The listener only tests a number against zero, so
  numbers are taken to be integers.
\<close>

type_synonym byte = "8 word"
type_synonym bytes = "byte list"
type_synonym socket_id = string

datatype js_data = Str bytes | Buf bytes | Null | Bool bool | Num int | Object

text \<open>JavaScript truthiness, as tested by \<^verbatim>\<open>if (data)\<close>: the empty string, \<^verbatim>\<open>null\<close>,
  \<^verbatim>\<open>undefined\<close>, \<^verbatim>\<open>false\<close> and zero are falsy, every object (a Buffer too, even an
  empty one) is truthy.\<close>

fun truthy :: "js_data \<Rightarrow> bool" where
  "truthy (Str s) = (s \<noteq> [])"
| "truthy (Buf b) = True"
| "truthy Null = False"
| "truthy (Bool b) = b"
| "truthy (Num n) = (n \<noteq> 0)"
| "truthy Object = True"

definition ascii :: "string \<Rightarrow> bytes" where
  "ascii s = map (\<lambda>c. of_nat (of_char c)) s"

definition replacement :: bytes where
  \<comment> \<open>U+FFFD in UTF-8.\<close>
  "replacement = [0xEF, 0xBF, 0xBD]"

text \<open>
  \<^verbatim>\<open>Buffer.prototype.toString()\<close> of the Node.js runtime, with its default encoding
  \<^verbatim>\<open>'utf8'\<close>: the bytes are decoded as UTF-8 and every ill-formed subsequence becomes
  U+FFFD. The result is given by its UTF-8 bytes. The arguments are the decoder's state:
  the number of continuation bytes still needed, the bytes of the sequence seen so far,
  and the bounds of the next continuation byte.
\<close>

function utf8 :: "nat \<Rightarrow> bytes \<Rightarrow> byte \<Rightarrow> byte \<Rightarrow> bytes \<Rightarrow> bytes" where
  "utf8 needed seen lo hi [] = (if needed = 0 then [] else replacement)"
| "utf8 needed seen lo hi (b # bs) =
     (if needed = 0 then
        (if b \<le> 0x7F then b # utf8 0 [] 0x80 0xBF bs
         else if 0xC2 \<le> b \<and> b \<le> 0xDF then utf8 1 [b] 0x80 0xBF bs
         else if 0xE0 \<le> b \<and> b \<le> 0xEF then
           utf8 2 [b] (if b = 0xE0 then 0xA0 else 0x80) (if b = 0xED then 0x9F else 0xBF) bs
         else if 0xF0 \<le> b \<and> b \<le> 0xF4 then
           utf8 3 [b] (if b = 0xF0 then 0x90 else 0x80) (if b = 0xF4 then 0x8F else 0xBF) bs
         else replacement @ utf8 0 [] 0x80 0xBF bs)
      else if b < lo \<or> hi < b then replacement @ utf8 0 [] 0x80 0xBF (b # bs)
      else if needed = 1 then seen @ b # utf8 0 [] 0x80 0xBF bs
      else utf8 (needed - 1) (seen @ [b]) 0x80 0xBF bs)"
  by pat_completeness auto
termination
  by (relation "measure (\<lambda>(needed, seen, lo, hi, bs). 2 * length bs + (if needed = 0 then 0 else 1))")
     auto

definition toString :: "bytes \<Rightarrow> bytes" where
  "toString b = utf8 0 [] 0x80 0xBF b"

section \<open>Child processes of the runtime\<close>

text \<open>
  A \<^verbatim>\<open>ChildProcess\<close> object of Node's \<^verbatim>\<open>child_process\<close> module, as far as the two
  pipe-based handles use it: the command line it was spawned with, whether the operating
  system process still runs (its exit has not been delivered yet), the \<^verbatim>\<open>killed\<close>
  flag, \<^verbatim>\<open>stdin.writable\<close>, the chunks accepted by \<^verbatim>\<open>stdin.write\<close> (oldest first)
  and the number of signals \<^verbatim>\<open>kill()\<close> has delivered. The operating system process
  can have terminated before the runtime delivers its exit (\<open>terminated\<close>): until then
  \<^verbatim>\<open>stdin.writable\<close> is still true, and the pipe behind it is broken.
\<close>

record child =
  cmd :: string
  argv :: "string list"
  alive :: bool
  terminated :: bool
  killed :: bool
  stdin_writable :: bool
  stdin_chunks :: "bytes list"
  signals :: nat

datatype backend = NodePty | WslFallback | PowerShellChild

datatype ptymodule = NodePtyModule | FallbackModule

datatype exn =
    ImportError | TypeError | SpawnError backend | InvalidArgType | WriteAfterEnd | EPIPE
  | KillError

definition childSpawn :: "string \<Rightarrow> string list \<Rightarrow> child" where
  "childSpawn command args =
     \<lparr>cmd = command, argv = args, alive = True, terminated = False, killed = False,
      stdin_writable = True, stdin_chunks = [], signals = 0\<rparr>"

text \<open>\<^verbatim>\<open>child.kill()\<close> with the default signal: a running process is signalled and
  \<^verbatim>\<open>killed\<close> becomes true; on a process that has exited the call returns false and
  changes nothing.\<close>

definition child_kill :: "child \<Rightarrow> child" where
  "child_kill c = (if alive c then c\<lparr>killed := True, signals := Suc (signals c)\<rparr> else c)"

text \<open>
  \<^verbatim>\<open>child.stdin.write(data)\<close>. A value that is neither a string nor a Buffer is refused
  with \<^verbatim>\<open>ERR_INVALID_ARG_TYPE\<close>, thrown by the call. A stream that is no longer writable
  refuses the chunk with an error. A chunk written to the pipe of a process that has
  terminated fails with \<^verbatim>\<open>EPIPE\<close>: the stream emits an \<^verbatim>\<open>error\<close> event, and the
  repository registers no listener for it, so it is an exception of the server.
\<close>

definition stdin_accept :: "bytes \<Rightarrow> child \<Rightarrow> exn + child" where
  "stdin_accept b c =
     (if \<not> stdin_writable c then Inl WriteAfterEnd
      else if terminated c then Inl EPIPE
      else Inr (c\<lparr>stdin_chunks := stdin_chunks c @ [b]\<rparr>))"

fun stdin_write :: "js_data \<Rightarrow> child \<Rightarrow> exn + child" where
  "stdin_write (Str b) c = stdin_accept b c"
| "stdin_write (Buf b) c = stdin_accept b c"
| "stdin_write d c = Inl InvalidArgType"

text \<open>The operating system process terminates; the runtime has not delivered its exit
  yet.\<close>

definition child_died :: "child \<Rightarrow> child" where
  "child_died c = c\<lparr>terminated := True\<rparr>"

text \<open>The runtime's own reaction to the exit of the process: the process is gone and its
  standard input is destroyed.\<close>

definition child_exit :: "child \<Rightarrow> child" where
  "child_exit c = c\<lparr>alive := False, terminated := True, stdin_writable := False\<rparr>"

section \<open>Process handles\<close>

text \<open>
  The only callbacks the repository registers with \<^verbatim>\<open>onData\<close> are
  \<^verbatim>\<open>(data) => socket.emit('terminal.output', data)\<close>, one for each socket: a callback is
  named by its socket, and calling it with a chunk is the pair of the socket and the chunk.
\<close>

type_synonym callback = socket_id
type_synonym emission = "callback \<times> bytes"

record pipe =
  process :: child
  onDataCallback :: "callback option"

subsection \<open>\<^verbatim>\<open>PtyProcess\<close> of pty-wsl-fallback.js\<close>

definition PtyProcess :: "bool \<Rightarrow> string \<Rightarrow> string list \<Rightarrow> pipe" where
  "PtyProcess isWin command args =
     \<lparr>process =
        (if isWin \<and> command = ''powershell.exe'' then childSpawn ''wsl.exe'' [''bash'']
         else if isWin then childSpawn ''wsl.exe'' (command # args)
         else childSpawn command args),
      onDataCallback = None\<rparr>"

definition exited_notice :: bytes where
  "exited_notice = [0x0D, 0x0A] @ ascii ''[Process exited]'' @ [0x0D, 0x0A]"

definition PtyProcess_data :: "bytes \<Rightarrow> pipe \<Rightarrow> emission list" where
  \<comment> \<open>the listeners on \<^verbatim>\<open>stdout\<close> and \<^verbatim>\<open>stderr\<close>\<close>
  "PtyProcess_data d p =
     (case onDataCallback p of Some cb \<Rightarrow> [(cb, toString d)] | None \<Rightarrow> [])"

definition PtyProcess_exit :: "pipe \<Rightarrow> emission list" where
  "PtyProcess_exit p =
     (case onDataCallback p of Some cb \<Rightarrow> [(cb, exited_notice)] | None \<Rightarrow> [])"

definition PtyProcess_onData :: "callback \<Rightarrow> pipe \<Rightarrow> pipe" where
  "PtyProcess_onData cb p = p\<lparr>onDataCallback := Some cb\<rparr>"

definition PtyProcess_write :: "js_data \<Rightarrow> pipe \<Rightarrow> exn + pipe" where
  "PtyProcess_write d p =
     (if stdin_writable (process p) then
        (case stdin_write d (process p) of
           Inl e \<Rightarrow> Inl e
         | Inr c \<Rightarrow> Inr (p\<lparr>process := c\<rparr>))
      else Inr p)"

definition PtyProcess_kill :: "pipe \<Rightarrow> pipe" where
  \<comment> \<open>\<^verbatim>\<open>this.process\<close> is set by the constructor, so only \<^verbatim>\<open>killed\<close> decides.\<close>
  "PtyProcess_kill p =
     (if \<not> killed (process p) then p\<lparr>process := child_kill (process p)\<rparr> else p)"

subsection \<open>The handle of \<^verbatim>\<open>createPowerShellFallback\<close> in index.js\<close>

definition powershell_notice :: bytes where
  "powershell_notice = [0x0D, 0x0A] @ ascii ''[PowerShell process exited]'' @ [0x0D, 0x0A]"

definition powershell_new :: pipe where
  "powershell_new = \<lparr>process = childSpawn ''powershell.exe'' [], onDataCallback = None\<rparr>"

definition emitData :: "bytes \<Rightarrow> pipe \<Rightarrow> emission list" where
  "emitData chunk p =
     (case onDataCallback p of Some dataHandler \<Rightarrow> [(dataHandler, toString chunk)] | None \<Rightarrow> [])"

definition powershell_exit :: "pipe \<Rightarrow> emission list" where
  "powershell_exit p =
     (case onDataCallback p of Some dataHandler \<Rightarrow> [(dataHandler, powershell_notice)] | None \<Rightarrow> [])"

definition powershell_onData :: "callback \<Rightarrow> pipe \<Rightarrow> pipe" where
  "powershell_onData handler p = p\<lparr>onDataCallback := Some handler\<rparr>"

definition powershell_write :: "js_data \<Rightarrow> pipe \<Rightarrow> exn + pipe" where
  "powershell_write d p =
     (if stdin_writable (process p) then
        (case stdin_write d (process p) of
           Inl e \<Rightarrow> Inl e
         | Inr c \<Rightarrow> Inr (p\<lparr>process := c\<rparr>))
      else Inr p)"

definition powershell_kill :: "pipe \<Rightarrow> pipe" where
  "powershell_kill p =
     (if \<not> killed (process p) then p\<lparr>process := child_kill (process p)\<rparr> else p)"

subsection \<open>Handles of the native pseudo-terminal\<close>

text \<open>
  \<^verbatim>\<open>node-pty\<close> is an external dependency: index.js uses its \<^verbatim>\<open>spawn\<close> and, on the
  handle, \<^verbatim>\<open>onData\<close>, \<^verbatim>\<open>write\<close> and \<^verbatim>\<open>kill\<close>. A native handle records the calls
  index.js makes on it. Whether its \<^verbatim>\<open>kill\<close> throws is decided by the host when the
  handle is made, so that both branches of the \<^verbatim>\<open>try\<close>/\<^verbatim>\<open>catch\<close> of the disconnect
  handler can be taken.
\<close>

record native_pty =
  n_listener :: "callback option"
  n_written :: "js_data list"
  n_kill_calls :: nat
  n_kill_throws :: bool

datatype handle = Native native_pty | Wsl pipe | PowerShell pipe

fun handle_onData :: "callback \<Rightarrow> handle \<Rightarrow> handle" where
  "handle_onData cb (Native n) = Native (n\<lparr>n_listener := Some cb\<rparr>)"
| "handle_onData cb (Wsl p) = Wsl (PtyProcess_onData cb p)"
| "handle_onData cb (PowerShell p) = PowerShell (powershell_onData cb p)"

fun handle_write :: "js_data \<Rightarrow> handle \<Rightarrow> exn + handle" where
  "handle_write d (Native n) = Inr (Native (n\<lparr>n_written := n_written n @ [d]\<rparr>))"
| "handle_write d (Wsl p) =
     (case PtyProcess_write d p of Inl e \<Rightarrow> Inl e | Inr p' \<Rightarrow> Inr (Wsl p'))"
| "handle_write d (PowerShell p) =
     (case powershell_write d p of Inl e \<Rightarrow> Inl e | Inr p' \<Rightarrow> Inr (PowerShell p'))"

fun handle_kill :: "handle \<Rightarrow> exn + handle" where
  "handle_kill (Native n) =
     (if n_kill_throws n then Inl KillError
      else Inr (Native (n\<lparr>n_kill_calls := Suc (n_kill_calls n)\<rparr>)))"
| "handle_kill (Wsl p) = Inr (Wsl (PtyProcess_kill p))"
| "handle_kill (PowerShell p) = Inr (PowerShell (powershell_kill p))"

text \<open>The \<^verbatim>\<open>data\<close> events of a handle's process: the calls of the subscriber they cause.\<close>

fun handle_data :: "bytes \<Rightarrow> handle \<Rightarrow> emission list" where
  "handle_data d (Native n) = (case n_listener n of Some cb \<Rightarrow> [(cb, d)] | None \<Rightarrow> [])"
| "handle_data d (Wsl p) = PtyProcess_data d p"
| "handle_data d (PowerShell p) = emitData d p"

section \<open>The server of index.js\<close>

text \<open>
  The module-level variables of index.js, the objects they refer to (\<open>heap\<close>: a handle is
  shared by the map \<^verbatim>\<open>activePtys\<close>, by the closures of the socket's listeners and by the
  listeners of its own process, so it lives in a store and is named by its index), the
  listeners registered on each socket (\<open>listeners\<close>: the handle their closure captured), and
  what the server has done to the outside: the \<^verbatim>\<open>terminal.output\<close> events emitted
  (\<open>outbox\<close>), the sockets it closed itself, and the spawn calls it made (\<open>spawn_log\<close>).
\<close>

record server =
  isWindows :: bool
  pty :: "ptymodule option"
  fallbackPty :: "ptymodule option"
  terminalBackend :: backend
  activePtys :: "socket_id \<rightharpoonup> nat"
  heap :: "handle list"
  listeners :: "socket_id \<rightharpoonup> nat"
  outbox :: "emission list"
  closed :: "socket_id list"
  spawn_log :: "backend list"

text \<open>What the host does with the spawn calls of one connection: which of them throw.\<close>

record outcomes =
  native_throws :: bool
  wsl_throws :: bool
  powershell_throws :: bool
  native_kill_throws :: bool

definition initial :: "bool \<Rightarrow> server" where
  "initial win =
     \<lparr>isWindows = win, pty = None, fallbackPty = None, terminalBackend = NodePty,
      activePtys = Map.empty, heap = [], listeners = Map.empty, outbox = [], closed = [],
      spawn_log = []\<rparr>"

text \<open>The import of the repository's own module \<^verbatim>\<open>./pty-wsl-fallback.js\<close> succeeds: its top
  level only defines a class and its exports. The result is the module now in
  \<^verbatim>\<open>fallbackPty\<close>.\<close>

definition loadFallback :: "server \<Rightarrow> server" where
  "loadFallback s =
     (let s1 = (if fallbackPty s = None then s\<lparr>fallbackPty := Some FallbackModule\<rparr> else s)
      in s1\<lparr>terminalBackend := WslFallback\<rparr>)"

definition shellCommand :: "server \<Rightarrow> string" where
  "shellCommand s = (if isWindows s then ''powershell.exe'' else ''bash'')"

definition createPowerShellFallback :: "outcomes \<Rightarrow> server \<Rightarrow> (exn + handle) \<times> server" where
  "createPowerShellFallback oc s =
     (let s1 = s\<lparr>terminalBackend := PowerShellChild, spawn_log := spawn_log s @ [PowerShellChild]\<rparr>
      in if powershell_throws oc then (Inl (SpawnError PowerShellChild), s1)
         else (Inr (PowerShell powershell_new), s1))"

text \<open>The top-level \<^verbatim>\<open>try\<close>/\<^verbatim>\<open>catch\<close> around the import of \<^verbatim>\<open>node-pty\<close>; the argument
  says whether the import succeeds.\<close>

definition startup :: "bool \<Rightarrow> bool \<Rightarrow> exn + server" where
  "startup win native_loads =
     (if native_loads then Inr ((initial win)\<lparr>pty := Some NodePtyModule\<rparr>)
      else if win then
        (let s = loadFallback (initial win) in Inr (s\<lparr>pty := fallbackPty s\<rparr>))
      else Inl ImportError)"

text \<open>\<^verbatim>\<open>pty.spawn(shellCommand, shellArgs, {...})\<close> on the module now in \<^verbatim>\<open>pty\<close>.\<close>

definition pty_spawn :: "outcomes \<Rightarrow> server \<Rightarrow> (exn + handle) \<times> server" where
  "pty_spawn oc s =
     (case pty s of
        None \<Rightarrow> (Inl TypeError, s)
      | Some NodePtyModule \<Rightarrow>
          (let s1 = s\<lparr>spawn_log := spawn_log s @ [NodePty]\<rparr>
           in if native_throws oc then (Inl (SpawnError NodePty), s1)
              else (Inr (Native \<lparr>n_listener = None, n_written = [], n_kill_calls = 0,
                                 n_kill_throws = native_kill_throws oc\<rparr>), s1))
      | Some FallbackModule \<Rightarrow>
          (let s1 = s\<lparr>spawn_log := spawn_log s @ [WslFallback]\<rparr>
           in if wsl_throws oc then (Inl (SpawnError WslFallback), s1)
              else (Inr (Wsl (PtyProcess (isWindows s) (shellCommand s) [])), s1)))"

definition spawnPty :: "outcomes \<Rightarrow> server \<Rightarrow> (exn + handle) \<times> server" where
  "spawnPty oc s =
     (case pty_spawn oc s of
        (Inr h, s1) \<Rightarrow> (Inr h, s1)
      | (Inl error, s1) \<Rightarrow>
          if terminalBackend s1 = NodePty then
            (let s2 = loadFallback s1; s3 = s2\<lparr>pty := fallbackPty s2\<rparr>
             in case pty_spawn oc s3 of
                  (Inr h, s4) \<Rightarrow> (Inr h, s4)
                | (Inl fallbackError, s4) \<Rightarrow>
                    if isWindows s4 then createPowerShellFallback oc s4
                    else (Inl fallbackError, s4))
          else if terminalBackend s1 = WslFallback \<and> isWindows s1 then
            createPowerShellFallback oc s1
          else (Inl error, s1))"

definition unable_notice :: bytes where
  "unable_notice =
     [0x0D, 0x0A] @ ascii ''[Server] Unable to start terminal session. Check server logs.''
     @ [0x0D, 0x0A]"

text \<open>The listener of \<^verbatim>\<open>io.on('connection')\<close>.\<close>

definition on_connection :: "socket_id \<Rightarrow> outcomes \<Rightarrow> server \<Rightarrow> server" where
  "on_connection sid oc s =
     (case spawnPty oc s of
        (Inl error, s1) \<Rightarrow>
          s1\<lparr>outbox := outbox s1 @ [(sid, unable_notice)], closed := closed s1 @ [sid]\<rparr>
      | (Inr ptyProcess, s1) \<Rightarrow>
          (let r = length (heap s1)
           in s1\<lparr>heap := heap s1 @ [handle_onData sid ptyProcess],
                 activePtys := (activePtys s1)(sid \<mapsto> r),
                 listeners := (listeners s1)(sid \<mapsto> r)\<rparr>))"

text \<open>\<^verbatim>\<open>Buffer.isBuffer(data) ? data.toString() : data\<close>\<close>

fun payload :: "js_data \<Rightarrow> js_data" where
  "payload (Buf b) = Str (toString b)"
| "payload data = data"

text \<open>The listener of \<^verbatim>\<open>terminal.input\<close>, whose closure holds the handle \<open>r\<close>. A reference
  is made by allocation only, so it is never out of range; there the model does nothing.\<close>

definition on_terminal_input :: "nat \<Rightarrow> js_data \<Rightarrow> server \<Rightarrow> exn + server" where
  "on_terminal_input r data s =
     (if truthy data \<and> r < length (heap s) then
        (case handle_write (payload data) (heap s ! r) of
           Inl e \<Rightarrow> Inl e
         | Inr h \<Rightarrow> Inr (s\<lparr>heap := (heap s)[r := h]\<rparr>))
      else Inr s)"

text \<open>The listener of \<^verbatim>\<open>disconnect\<close>: an exception of \<^verbatim>\<open>kill\<close> is caught and logged, and
  the \<^verbatim>\<open>finally\<close> block deletes the entry either way.\<close>

definition on_disconnect :: "socket_id \<Rightarrow> server \<Rightarrow> server" where
  "on_disconnect sid s =
     (case activePtys s sid of
        None \<Rightarrow> s
      | Some r \<Rightarrow>
          (if r < length (heap s) then
             (case handle_kill (heap s ! r) of
                Inl error \<Rightarrow> s\<lparr>activePtys := (activePtys s)(sid := None)\<rparr>
              | Inr h \<Rightarrow> s\<lparr>heap := (heap s)[r := h], activePtys := (activePtys s)(sid := None)\<rparr>)
           else s\<lparr>activePtys := (activePtys s)(sid := None)\<rparr>))"

text \<open>A \<^verbatim>\<open>data\<close> event of the process of handle \<open>r\<close> (its \<^verbatim>\<open>stdout\<close> or \<^verbatim>\<open>stderr\<close>).\<close>

definition proc_data :: "nat \<Rightarrow> bytes \<Rightarrow> server \<Rightarrow> server" where
  "proc_data r d s =
     (if r < length (heap s) then s\<lparr>outbox := outbox s @ handle_data d (heap s ! r)\<rparr> else s)"

text \<open>The process of handle \<open>r\<close> terminates. No listener runs; a native handle keeps its
  state to itself.\<close>

definition proc_died :: "nat \<Rightarrow> server \<Rightarrow> server" where
  "proc_died r s =
     (if r < length (heap s) then
        (case heap s ! r of
           Native n \<Rightarrow> s
         | Wsl p \<Rightarrow> s\<lparr>heap := (heap s)[r := Wsl (p\<lparr>process := child_died (process p)\<rparr>)]\<rparr>
         | PowerShell p \<Rightarrow>
             s\<lparr>heap := (heap s)[r := PowerShell (p\<lparr>process := child_died (process p)\<rparr>)]\<rparr>)
      else s)"

text \<open>The exit of the process of handle \<open>r\<close>. The runtime delivers it once, to a process
  that was running. index.js registers no exit listener on a native handle.\<close>

definition proc_exit :: "nat \<Rightarrow> server \<Rightarrow> server" where
  "proc_exit r s =
     (if r < length (heap s) then
        (case heap s ! r of
           Native n \<Rightarrow> s
         | Wsl p \<Rightarrow>
             (if alive (process p) then
                s\<lparr>heap := (heap s)[r := Wsl (p\<lparr>process := child_exit (process p)\<rparr>)],
                  outbox := outbox s @ PtyProcess_exit p\<rparr>
              else s)
         | PowerShell p \<Rightarrow>
             (if alive (process p) then
                s\<lparr>heap := (heap s)[r := PowerShell (p\<lparr>process := child_exit (process p)\<rparr>)],
                  outbox := outbox s @ powershell_exit p\<rparr>
              else s))
      else s)"

datatype event =
    Connection socket_id outcomes
  | Input socket_id js_data
  | Disconnect socket_id
  | ProcData nat bytes
  | ProcDied nat
  | ProcExit nat

text \<open>One turn of the event loop. A socket's listeners exist once its connection has got
  a handle; an exception that leaves a listener ends the run.\<close>

fun step :: "event \<Rightarrow> server \<Rightarrow> exn + server" where
  "step (Connection sid oc) s = Inr (on_connection sid oc s)"
| "step (Input sid data) s =
     (case listeners s sid of None \<Rightarrow> Inr s | Some r \<Rightarrow> on_terminal_input r data s)"
| "step (Disconnect sid) s =
     (case listeners s sid of None \<Rightarrow> Inr s | Some r \<Rightarrow> Inr (on_disconnect sid s))"
| "step (ProcData r d) s = Inr (proc_data r d s)"
| "step (ProcDied r) s = Inr (proc_died r s)"
| "step (ProcExit r) s = Inr (proc_exit r s)"

fun run :: "event list \<Rightarrow> server \<Rightarrow> exn + server" where
  "run [] s = Inr s"
| "run (e # es) s = (case step e s of Inl x \<Rightarrow> Inl x | Inr s' \<Rightarrow> run es s')"

text \<open>The handler of \<^verbatim>\<open>GET /health\<close>; \<open>now\<close> is \<^verbatim>\<open>new Date().toISOString()\<close>.\<close>

record health_body =
  status :: string
  service :: string
  timestamp :: string

definition health :: "server \<Rightarrow> string \<Rightarrow> health_body" where
  "health s now = \<lparr>status = ''ok'', service = ''Project Swivel PTY engine'', timestamp = now\<rparr>"

section \<open>Notions used in the statements\<close>

text \<open>The fixed order of the strategies: native-pty, compatibility-shell, direct-spawn.\<close>

definition rank :: "backend \<Rightarrow> nat" where
  "rank b = (case b of NodePty \<Rightarrow> 0 | WslFallback \<Rightarrow> 1 | PowerShellChild \<Rightarrow> 2)"

text \<open>The spawn calls that one call of \<open>spawnPty\<close> makes, in the order it makes them.\<close>

definition attempts :: "outcomes \<Rightarrow> server \<Rightarrow> backend list" where
  "attempts oc s = drop (length (spawn_log s)) (spawn_log (snd (spawnPty oc s)))"

text \<open>The module in \<^verbatim>\<open>pty\<close> agrees with \<^verbatim>\<open>terminalBackend\<close>: it is the fallback module as
  soon as the backend has left \<^verbatim>\<open>'node-pty'\<close>, and \<^verbatim>\<open>'powershell-child'\<close> occurs on
  Windows only.\<close>

definition coherent :: "server \<Rightarrow> bool" where
  "coherent s =
     ((fallbackPty s = None \<or> fallbackPty s = Some FallbackModule) \<and>
      (case terminalBackend s of
        NodePty \<Rightarrow> pty s = Some NodePtyModule
      | WslFallback \<Rightarrow> pty s = Some FallbackModule
      | PowerShellChild \<Rightarrow> pty s = Some FallbackModule \<and> isWindows s))"

text \<open>The output subscriber of a handle.\<close>

fun subscriber :: "handle \<Rightarrow> callback option" where
  "subscriber (Native n) = n_listener n"
| "subscriber (Wsl p) = onDataCallback p"
| "subscriber (PowerShell p) = onDataCallback p"

text \<open>Every registered session is the one its socket's listeners captured, and its handle
  forwards its output to that socket.\<close>

definition wired :: "server \<Rightarrow> bool" where
  "wired s =
     (\<forall>sid r. (activePtys s sid = Some r \<longrightarrow> listeners s sid = Some r) \<and>
              (listeners s sid = Some r \<longrightarrow> r < length (heap s) \<and> subscriber (heap s ! r) = Some sid))"

text \<open>The variables of the backend selector.\<close>

definition backend_vars :: "server \<Rightarrow> bool \<times> ptymodule option \<times> ptymodule option \<times> backend \<times> backend list" where
  "backend_vars s = (isWindows s, pty s, fallbackPty s, terminalBackend s, spawn_log s)"

text \<open>Whether the host lets the spawn call of a strategy throw.\<close>

fun throws :: "outcomes \<Rightarrow> backend \<Rightarrow> bool" where
  "throws oc NodePty = native_throws oc"
| "throws oc WslFallback = wsl_throws oc"
| "throws oc PowerShellChild = powershell_throws oc"

text \<open>The strategy that a module's \<^verbatim>\<open>spawn\<close> is, and the strategy that made a handle.\<close>

fun module_strategy :: "ptymodule \<Rightarrow> backend" where
  "module_strategy NodePtyModule = NodePty"
| "module_strategy FallbackModule = WslFallback"

fun made_by :: "handle \<Rightarrow> backend" where
  "made_by (Native n) = NodePty"
| "made_by (Wsl p) = WslFallback"
| "made_by (PowerShell p) = PowerShellChild"

text \<open>Whether the input stream of a handle's process still accepts chunks.\<close>

fun writable :: "handle \<Rightarrow> bool" where
  "writable (Native n) = True"
| "writable (Wsl p) = stdin_writable (process p)"
| "writable (PowerShell p) = stdin_writable (process p)"




text \<open>The payloads that are input chunks: strings and Buffers.\<close>

fun chunk :: "js_data \<Rightarrow> bool" where
  "chunk (Str s) = True"
| "chunk (Buf b) = True"
| "chunk d = False"






section \<open>Hosts and sessions used as examples\<close>

text \<open>The server as it starts on a host that is not Windows, and on Windows, with
  \<^verbatim>\<open>node-pty\<close> loaded.\<close>

definition linux :: server where
  "linux = (initial False)\<lparr>pty := Some NodePtyModule\<rparr>"

definition windows :: server where
  "windows = (initial True)\<lparr>pty := Some NodePtyModule\<rparr>"

text \<open>Hosts on which every spawn call throws, on which only PowerShell starts, and on which
  the native pseudo-terminal alone fails.\<close>

definition none_work :: outcomes where
  "none_work = \<lparr>native_throws = True, wsl_throws = True, powershell_throws = True,
                 native_kill_throws = False\<rparr>"

definition only_powershell :: outcomes where
  "only_powershell = \<lparr>native_throws = True, wsl_throws = True, powershell_throws = False,
                       native_kill_throws = False\<rparr>"

definition only_pipes :: outcomes where
  "only_pipes = \<lparr>native_throws = True, wsl_throws = False, powershell_throws = False,
                  native_kill_throws = False\<rparr>"

text \<open>Windows, after a first connection that only PowerShell could serve.\<close>

definition after_c1 :: server where
  "after_c1 = on_connection ''c1'' only_powershell windows"

text \<open>A host other than Windows, after a connection whose native spawn failed and that the
  fallback module served; the same for other sockets.\<close>

definition after_demotion :: server where
  "after_demotion = on_connection ''c1'' only_pipes linux"


text \<open>A host on which every spawn works and the \<^verbatim>\<open>kill\<close> of a native handle throws, and a
  session n1 on the native pseudo-terminal there.\<close>

definition kill_fails :: outcomes where
  "kill_fails = \<lparr>native_throws = False, wsl_throws = False, powershell_throws = False,
                  native_kill_throws = True\<rparr>"

definition native_session :: server where
  "native_session = on_connection ''n1'' kill_fails linux"

definition session5 :: server where
  "session5 = on_connection ''c5'' only_pipes linux"




section \<open>Properties of the model\<close>

lemma startup_coherent: "startup win nl = Inr s \<Longrightarrow> coherent s \<and> isWindows s = win"
  by (auto simp: startup_def coherent_def initial_def loadFallback_def Let_def split: if_splits)

subsection \<open>What \<open>spawnPty\<close> computes\<close>

lemma pty_spawn_native:
  "pty s = Some NodePtyModule \<Longrightarrow>
   pty_spawn oc s =
     (if native_throws oc then Inl (SpawnError NodePty)
      else Inr (Native \<lparr>n_listener = None, n_written = [], n_kill_calls = 0,
                        n_kill_throws = native_kill_throws oc\<rparr>),
      s\<lparr>spawn_log := spawn_log s @ [NodePty]\<rparr>)"
  by (simp add: pty_spawn_def Let_def)

lemma pty_spawn_fallback:
  "pty s = Some FallbackModule \<Longrightarrow>
   pty_spawn oc s =
     (if wsl_throws oc then Inl (SpawnError WslFallback)
      else Inr (Wsl (PtyProcess (isWindows s) (shellCommand s) [])),
      s\<lparr>spawn_log := spawn_log s @ [WslFallback]\<rparr>)"
  by (simp add: pty_spawn_def Let_def)

lemma createPowerShellFallback_eq:
  "createPowerShellFallback oc s =
     (if powershell_throws oc then Inl (SpawnError PowerShellChild)
      else Inr (PowerShell powershell_new),
      s\<lparr>terminalBackend := PowerShellChild, spawn_log := spawn_log s @ [PowerShellChild]\<rparr>)"
  by (simp add: createPowerShellFallback_def Let_def)

text \<open>
  What \<open>spawnPty\<close> returns and the state it leaves behind, for each state of the backend.
\<close>

lemma spawnPty_native:
  assumes "coherent s" and "terminalBackend s = NodePty"
  shows "spawnPty oc s =
     (if \<not> native_throws oc then
        (Inr (Native \<lparr>n_listener = None, n_written = [], n_kill_calls = 0,
                       n_kill_throws = native_kill_throws oc\<rparr>),
         s\<lparr>spawn_log := spawn_log s @ [NodePty]\<rparr>)
      else if \<not> wsl_throws oc then
        (Inr (Wsl (PtyProcess (isWindows s) (shellCommand s) [])),
         s\<lparr>fallbackPty := Some FallbackModule, terminalBackend := WslFallback,
           pty := Some FallbackModule, spawn_log := spawn_log s @ [NodePty, WslFallback]\<rparr>)
      else if \<not> isWindows s then
        (Inl (SpawnError WslFallback),
         s\<lparr>fallbackPty := Some FallbackModule, terminalBackend := WslFallback,
           pty := Some FallbackModule, spawn_log := spawn_log s @ [NodePty, WslFallback]\<rparr>)
      else
        (if powershell_throws oc then Inl (SpawnError PowerShellChild)
         else Inr (PowerShell powershell_new),
         s\<lparr>fallbackPty := Some FallbackModule, terminalBackend := PowerShellChild,
           pty := Some FallbackModule,
           spawn_log := spawn_log s @ [NodePty, WslFallback, PowerShellChild]\<rparr>))"
proof -
  from assms have p: "pty s = Some NodePtyModule"
    and f: "fallbackPty s = None \<or> fallbackPty s = Some FallbackModule"
    by (simp_all add: coherent_def)
  define s1 where "s1 = s\<lparr>spawn_log := spawn_log s @ [NodePty]\<rparr>"
  define s3 where "s3 = s\<lparr>fallbackPty := Some FallbackModule, terminalBackend := WslFallback,
           pty := Some FallbackModule, spawn_log := spawn_log s @ [NodePty]\<rparr>"
  have l: "(let s2 = loadFallback s1 in s2\<lparr>pty := fallbackPty s2\<rparr>) = s3"
    using f by (auto simp: loadFallback_def Let_def s1_def s3_def)
  have p3: "pty s3 = Some FallbackModule" by (simp add: s3_def)
  show ?thesis
    unfolding spawnPty_def pty_spawn_native [OF p, of oc, folded s1_def]
    using assms(2) l pty_spawn_fallback [OF p3, of oc]
    by (simp add: Let_def s1_def createPowerShellFallback_eq shellCommand_def)
       (simp add: s3_def)
qed

lemma spawnPty_wsl:
  assumes "coherent s" and "terminalBackend s = WslFallback"
  shows "spawnPty oc s =
     (if \<not> wsl_throws oc then
        (Inr (Wsl (PtyProcess (isWindows s) (shellCommand s) [])),
         s\<lparr>spawn_log := spawn_log s @ [WslFallback]\<rparr>)
      else if \<not> isWindows s then
        (Inl (SpawnError WslFallback), s\<lparr>spawn_log := spawn_log s @ [WslFallback]\<rparr>)
      else
        (if powershell_throws oc then Inl (SpawnError PowerShellChild)
         else Inr (PowerShell powershell_new),
         s\<lparr>terminalBackend := PowerShellChild,
           spawn_log := spawn_log s @ [WslFallback, PowerShellChild]\<rparr>))"
proof -
  from assms have p: "pty s = Some FallbackModule"
    by (simp add: coherent_def)
  show ?thesis
    unfolding spawnPty_def pty_spawn_fallback [OF p, of oc]
    using assms(2) by (simp add: createPowerShellFallback_eq)
qed

lemma spawnPty_powershell:
  assumes "coherent s" and "terminalBackend s = PowerShellChild"
  shows "spawnPty oc s =
     (if wsl_throws oc then Inl (SpawnError WslFallback)
      else Inr (Wsl (PtyProcess (isWindows s) (shellCommand s) [])),
      s\<lparr>spawn_log := spawn_log s @ [WslFallback]\<rparr>)"
proof -
  from assms have p: "pty s = Some FallbackModule"
    by (simp add: coherent_def)
  show ?thesis
    unfolding spawnPty_def pty_spawn_fallback [OF p, of oc]
    using assms(2) by simp
qed

lemmas spawnPty_eqs = spawnPty_native spawnPty_wsl spawnPty_powershell

lemma spawnPty_coherent:
  assumes "coherent s"
  shows "coherent (snd (spawnPty oc s))"
  using assms
  by (cases "terminalBackend s") (auto simp: spawnPty_eqs, auto simp: coherent_def)

lemma spawnPty_isWindows:
  assumes "coherent s"
  shows "isWindows (snd (spawnPty oc s)) = isWindows s"
  using assms by (cases "terminalBackend s") (auto simp: spawnPty_eqs)

lemma spawnPty_rank:
  assumes "coherent s"
  shows "rank (terminalBackend s) \<le> rank (terminalBackend (snd (spawnPty oc s)))"
  using assms by (cases "terminalBackend s") (auto simp: spawnPty_eqs rank_def)

lemma spawnPty_frame:
  "activePtys (snd (spawnPty oc s)) = activePtys s \<and> heap (snd (spawnPty oc s)) = heap s
   \<and> listeners (snd (spawnPty oc s)) = listeners s \<and> outbox (snd (spawnPty oc s)) = outbox s
   \<and> closed (snd (spawnPty oc s)) = closed s"
  by (auto simp: spawnPty_def pty_spawn_def loadFallback_def Let_def 
        createPowerShellFallback_def split: option.splits ptymodule.splits)

lemma attempts_cases:
  assumes "coherent s"
  shows "attempts oc s =
     (case terminalBackend s of
        NodePty \<Rightarrow>
          (if \<not> native_throws oc then [NodePty]
           else if \<not> wsl_throws oc \<or> \<not> isWindows s then [NodePty, WslFallback]
           else [NodePty, WslFallback, PowerShellChild])
      | WslFallback \<Rightarrow>
          (if \<not> wsl_throws oc \<or> \<not> isWindows s then [WslFallback]
           else [WslFallback, PowerShellChild])
      | PowerShellChild \<Rightarrow> [WslFallback])"
  using assms
  by (cases "terminalBackend s") (auto simp: attempts_def spawnPty_eqs)

subsection \<open>Runs\<close>

lemma handle_write_subscriber: "handle_write d h = Inr h' \<Longrightarrow> subscriber h' = subscriber h"
  by (cases h; cases d)
     (auto simp: PtyProcess_write_def powershell_write_def stdin_accept_def split: if_splits)

lemma handle_kill_subscriber: "handle_kill h = Inr h' \<Longrightarrow> subscriber h' = subscriber h"
  by (cases h) (auto simp: PtyProcess_kill_def powershell_kill_def split: if_splits)

text \<open>
  A run that ends without an exception has taken its first step without one.
\<close>

lemma run_Cons_Inr:
  assumes "run (e # es) s = Inr s'"
  shows "\<exists>s1. step e s = Inr s1 \<and> run es s1 = Inr s'"
  using assms by (cases "step e s") simp_all

subsection \<open>The backend variables along a run\<close>

lemma coherent_cong:
  "backend_vars s' = backend_vars s \<Longrightarrow> coherent s' = coherent s"
  by (auto simp: backend_vars_def coherent_def split: backend.splits)

lemma on_connection_backend:
  "backend_vars (on_connection sid oc s) = backend_vars (snd (spawnPty oc s))"
  by (cases "spawnPty oc s") (auto simp: on_connection_def backend_vars_def Let_def split: sum.splits)

lemma on_terminal_input_backend:
  "on_terminal_input r d s = Inr s' \<Longrightarrow> backend_vars s' = backend_vars s"
  by (auto simp: on_terminal_input_def backend_vars_def split: if_splits sum.splits)

lemma on_disconnect_backend: "backend_vars (on_disconnect sid s) = backend_vars s"
  by (auto simp: on_disconnect_def backend_vars_def split: option.splits sum.splits)

lemma proc_data_backend: "backend_vars (proc_data r d s) = backend_vars s"
  by (auto simp: proc_data_def backend_vars_def)

lemma proc_exit_backend: "backend_vars (proc_exit r s) = backend_vars s"
  by (auto simp: proc_exit_def backend_vars_def split: handle.splits)

lemma proc_died_backend: "backend_vars (proc_died r s) = backend_vars s"
  by (auto simp: proc_died_def backend_vars_def split: handle.splits)

lemma step_backend:
  "step e s = Inr s' \<Longrightarrow>
   (\<exists>sid oc. e = Connection sid oc \<and> backend_vars s' = backend_vars (snd (spawnPty oc s)))
   \<or> backend_vars s' = backend_vars s"
  by (cases e)
     (auto simp: on_connection_backend on_disconnect_backend proc_data_backend proc_exit_backend
        proc_died_backend dest: on_terminal_input_backend split: option.splits)

lemma step_coherent:
  assumes "step e s = Inr s'" and "coherent s"
  shows "coherent s' \<and> isWindows s' = isWindows s
         \<and> rank (terminalBackend s) \<le> rank (terminalBackend s')"
proof -
  from step_backend [OF assms(1)] show ?thesis
  proof
    assume "\<exists>sid oc. e = Connection sid oc \<and> backend_vars s' = backend_vars (snd (spawnPty oc s))"
    then obtain sid oc where b: "backend_vars s' = backend_vars (snd (spawnPty oc s))" by blast
    from coherent_cong [OF b] spawnPty_coherent [OF assms(2), of oc] have "coherent s'" by simp
    moreover from b spawnPty_isWindows [OF assms(2), of oc] have "isWindows s' = isWindows s"
      by (simp add: backend_vars_def)
    moreover from b spawnPty_rank [OF assms(2), of oc]
    have "rank (terminalBackend s) \<le> rank (terminalBackend s')"
      by (simp add: backend_vars_def)
    ultimately show ?thesis by simp
  next
    assume b: "backend_vars s' = backend_vars s"
    from coherent_cong [OF b] assms(2) have "coherent s'" by simp
    with b show ?thesis by (simp add: backend_vars_def)
  qed
qed

text \<open>
  Along a run the loaded module keeps agreeing with the backend state, and the backend
  state never moves back in the fixed order.
\<close>

lemma run_coherent:
  "run es s = Inr s' \<Longrightarrow> coherent s \<Longrightarrow>
   coherent s' \<and> isWindows s' = isWindows s \<and> rank (terminalBackend s) \<le> rank (terminalBackend s')"
proof (induction es arbitrary: s)
  case Nil
  then show ?case by simp
next
  case (Cons e es)
  from run_Cons_Inr [OF Cons.prems(1)]
  obtain s1 where s1: "step e s = Inr s1" and r: "run es s1 = Inr s'" by blast
  from step_coherent [OF s1 Cons.prems(2)] have c1: "coherent s1"
    and w1: "isWindows s1 = isWindows s"
    and r1: "rank (terminalBackend s) \<le> rank (terminalBackend s1)" by simp_all
  from Cons.IH [OF r c1] w1 r1 show ?case by simp
qed

subsection \<open>Sessions stay wired along a run\<close>

lemma subscriber_onData: "subscriber (handle_onData cb h) = Some cb"
  by (cases h) (simp_all add: PtyProcess_onData_def powershell_onData_def)

lemma wired_update:
  assumes "wired s"
    and "listeners s' = listeners s"
    and "\<And>sid r. activePtys s' sid = Some r \<Longrightarrow> activePtys s sid = Some r"
    and "length (heap s') = length (heap s)"
    and "\<And>i. i < length (heap s) \<Longrightarrow> subscriber (heap s' ! i) = subscriber (heap s ! i)"
  shows "wired s'"
  using assms unfolding wired_def by metis

lemma on_connection_wired:
  assumes "wired s"
  shows "wired (on_connection sid oc s)"
proof (cases "spawnPty oc s")
  case (Pair res s1)
  from spawnPty_frame [of oc s] Pair have fr: "activePtys s1 = activePtys s" "heap s1 = heap s"
    "listeners s1 = listeners s" by simp_all
  show ?thesis
  proof (cases res)
    case (Inl e)
    with Pair fr assms show ?thesis
      by (auto simp: on_connection_def wired_def)
  next
    case (Inr h)
    have lt: "\<And>sid' r. listeners s sid' = Some r \<Longrightarrow> r < length (heap s)"
      and sub: "\<And>sid' r. listeners s sid' = Some r \<Longrightarrow> subscriber (heap s ! r) = Some sid'"
      and al: "\<And>sid' r. activePtys s sid' = Some r \<Longrightarrow> listeners s sid' = Some r"
      using assms unfolding wired_def by blast+
    from Pair Inr fr show ?thesis
      unfolding wired_def on_connection_def
      by (auto simp: Let_def nth_append subscriber_onData al sub dest: lt less_SucI)
  qed
qed

lemma on_terminal_input_wired:
  assumes "on_terminal_input r d s = Inr s'" and "wired s"
  shows "wired s'"
proof (rule wired_update [OF assms(2)])
  show "listeners s' = listeners s"
    using assms(1) by (auto simp: on_terminal_input_def split: if_splits sum.splits)
  show "\<And>sid r. activePtys s' sid = Some r \<Longrightarrow> activePtys s sid = Some r"
    using assms(1) by (auto simp: on_terminal_input_def split: if_splits sum.splits)
  show "length (heap s') = length (heap s)"
    using assms(1) by (auto simp: on_terminal_input_def split: if_splits sum.splits)
  show "\<And>i. i < length (heap s) \<Longrightarrow> subscriber (heap s' ! i) = subscriber (heap s ! i)"
    using assms(1)
    by (auto simp: on_terminal_input_def nth_list_update dest: handle_write_subscriber
          split: if_splits sum.splits)
qed

lemma on_disconnect_wired:
  assumes "wired s"
  shows "wired (on_disconnect sid s)"
proof (rule wired_update [OF assms])
  show "listeners (on_disconnect sid s) = listeners s"
    by (auto simp: on_disconnect_def split: option.splits sum.splits)
  show "\<And>sid' r. activePtys (on_disconnect sid s) sid' = Some r \<Longrightarrow> activePtys s sid' = Some r"
    by (auto simp: on_disconnect_def split: option.splits sum.splits if_splits)
  show "length (heap (on_disconnect sid s)) = length (heap s)"
    by (auto simp: on_disconnect_def split: option.splits sum.splits)
  show "\<And>i. i < length (heap s) \<Longrightarrow>
      subscriber (heap (on_disconnect sid s) ! i) = subscriber (heap s ! i)"
    by (auto simp: on_disconnect_def nth_list_update dest: handle_kill_subscriber
          split: option.splits sum.splits)
qed

lemma proc_data_wired: "wired s \<Longrightarrow> wired (proc_data r d s)"
  by (simp add: proc_data_def wired_def)

lemma proc_exit_wired:
  assumes "wired s"
  shows "wired (proc_exit r s)"
proof (rule wired_update [OF assms])
  show "listeners (proc_exit r s) = listeners s"
    by (auto simp: proc_exit_def split: handle.splits)
  show "\<And>sid' r'. activePtys (proc_exit r s) sid' = Some r' \<Longrightarrow> activePtys s sid' = Some r'"
    by (auto simp: proc_exit_def split: handle.splits if_splits)
  show "length (heap (proc_exit r s)) = length (heap s)"
    by (auto simp: proc_exit_def split: handle.splits)
  show "\<And>i. i < length (heap s) \<Longrightarrow>
      subscriber (heap (proc_exit r s) ! i) = subscriber (heap s ! i)"
    by (auto simp: proc_exit_def nth_list_update split: handle.splits)
qed

lemma proc_died_wired:
  assumes "wired s"
  shows "wired (proc_died r s)"
proof (rule wired_update [OF assms])
  show "listeners (proc_died r s) = listeners s"
    by (auto simp: proc_died_def split: handle.splits)
  show "\<And>sid' r'. activePtys (proc_died r s) sid' = Some r' \<Longrightarrow> activePtys s sid' = Some r'"
    by (auto simp: proc_died_def split: handle.splits if_splits)
  show "length (heap (proc_died r s)) = length (heap s)"
    by (auto simp: proc_died_def split: handle.splits)
  show "\<And>i. i < length (heap s) \<Longrightarrow>
      subscriber (heap (proc_died r s) ! i) = subscriber (heap s ! i)"
    by (auto simp: proc_died_def nth_list_update split: handle.splits)
qed

lemma step_wired:
  assumes "step e s = Inr s'" and "wired s"
  shows "wired s'"
  using assms
  by (cases e)
     (auto simp: on_connection_wired on_disconnect_wired proc_data_wired proc_exit_wired
        proc_died_wired dest: on_terminal_input_wired split: option.splits)

lemma run_wired: "run es s = Inr s' \<Longrightarrow> wired s \<Longrightarrow> wired s'"
proof (induction es arbitrary: s)
  case Nil
  then show ?case by simp
next
  case (Cons e es)
  from run_Cons_Inr [OF Cons.prems(1)]
  obtain s1 where s1: "step e s = Inr s1" and r: "run es s1 = Inr s'" by blast
  from Cons.IH [OF r step_wired [OF s1 Cons.prems(2)]] show ?case .
qed

lemma startup_wired: "startup win nl = Inr s \<Longrightarrow> wired s"
  by (auto simp: startup_def wired_def initial_def loadFallback_def Let_def split: if_splits)

subsection \<open>C1: the order of the spawn attempts\<close>

lemma on_connection_error:
  assumes "fst (spawnPty oc s) = Inl e"
  shows "on_connection sid oc s =
     (snd (spawnPty oc s))\<lparr>outbox := outbox s @ [(sid, unable_notice)], closed := closed s @ [sid]\<rparr>"
  using assms spawnPty_frame [of oc s]
  by (cases "spawnPty oc s") (simp add: on_connection_def)

lemma reachable_coherent:
  assumes "startup win nl = Inr s0" and "run evs s0 = Inr s"
  shows "coherent s" and "isWindows s = win"
  using run_coherent [OF assms(2)] startup_coherent [OF assms(1)] by simp_all

lemma reachable_wired:
  assumes "startup win nl = Inr s0" and "run evs s0 = Inr s"
  shows "wired s"
  using run_wired [OF assms(2) startup_wired [OF assms(1)]] .

text \<open>
  Claim C1, as amended. In every state the server reaches, one call of \<open>spawnPty\<close> attempts
  the strategies in the fixed order native-pty, compatibility-shell, direct-spawn: it
  starts at the strategy of the module now loaded and moves on to the next one in the
  order, each at most once and so at most three, direct-spawn on a Windows host only.
  Every attempt but the last has thrown; the call fails exactly when the last attempt
  throws, and then with the error of that last attempt; when it succeeds, the handle is
  the one the last attempt made. While the backend state is native-pty or
  compatibility-shell, a failure is reported only after every strategy from the current
  one on has failed: on Windows after direct-spawn, on any other host after
  compatibility-shell, where direct-spawn is never attempted. After a failure the
  connection listener emits exactly one notice on the socket, closes it, and registers no
  session and no handle.
\<close>

theorem spawn_attempts_in_order:
  assumes "startup win nl = Inr s0" and "run evs s0 = Inr s"
  shows "sorted_wrt (\<lambda>a b. rank a < rank b) (attempts oc s)
       \<and> attempts oc s \<noteq> [] \<and> length (attempts oc s) \<le> 3
       \<and> map_option module_strategy (pty s) = Some (hd (attempts oc s))
       \<and> (\<forall>i. Suc i < length (attempts oc s) \<longrightarrow>
             rank (attempts oc s ! Suc i) = Suc (rank (attempts oc s ! i)))
       \<and> (PowerShellChild \<in> set (attempts oc s) \<longrightarrow> isWindows s)
       \<and> (\<forall>b \<in> set (butlast (attempts oc s)). throws oc b)
       \<and> ((\<exists>e. fst (spawnPty oc s) = Inl e) = throws oc (last (attempts oc s)))
       \<and> (\<forall>h. fst (spawnPty oc s) = Inr h \<longrightarrow> made_by h = last (attempts oc s))
       \<and> (\<forall>e. fst (spawnPty oc s) = Inl e \<longrightarrow>
             e = SpawnError (last (attempts oc s))
             \<and> (terminalBackend s \<noteq> PowerShellChild \<longrightarrow>
                attempts oc s =
                  filter (\<lambda>b. rank (terminalBackend s) \<le> rank b \<and> (b = PowerShellChild \<longrightarrow> isWindows s))
                    [NodePty, WslFallback, PowerShellChild])
             \<and> activePtys (on_connection sid oc s) = activePtys s
             \<and> listeners (on_connection sid oc s) = listeners s
             \<and> heap (on_connection sid oc s) = heap s
             \<and> outbox (on_connection sid oc s) = outbox s @ [(sid, unable_notice)]
             \<and> closed (on_connection sid oc s) = closed s @ [sid])"
proof -
  have c: "coherent s" using reachable_coherent [OF assms] by simp
  have a: "sorted_wrt (\<lambda>a b. rank a < rank b) (attempts oc s)
       \<and> attempts oc s \<noteq> [] \<and> length (attempts oc s) \<le> 3
       \<and> (PowerShellChild \<in> set (attempts oc s) \<longrightarrow> isWindows s)
       \<and> (\<forall>b \<in> set (butlast (attempts oc s)). throws oc b)"
    by (cases "terminalBackend s") (auto simp: attempts_cases [OF c] rank_def)
  have m: "map_option module_strategy (pty s) = Some (hd (attempts oc s))"
    using c by (cases "terminalBackend s") (auto simp: attempts_cases [OF c] coherent_def)
  have k: "rank (attempts oc s ! Suc i) = Suc (rank (attempts oc s ! i))"
    if "Suc i < length (attempts oc s)" for i
    using that
    by (cases "terminalBackend s")
       (auto simp: attempts_cases [OF c] rank_def nth_Cons less_Suc_eq split: if_splits nat.splits)
  have b: "(\<exists>e. fst (spawnPty oc s) = Inl e) = throws oc (last (attempts oc s))"
    by (cases "terminalBackend s") (auto simp: attempts_cases [OF c] spawnPty_eqs [OF c])
  have g: "made_by h = last (attempts oc s)" if "fst (spawnPty oc s) = Inr h" for h
    using that
    by (cases "terminalBackend s")
       (auto simp: attempts_cases [OF c] spawnPty_eqs [OF c] split: if_splits)
  have x: "e = SpawnError (last (attempts oc s))" if "fst (spawnPty oc s) = Inl e" for e
    using that
    by (cases "terminalBackend s")
       (auto simp: attempts_cases [OF c] spawnPty_eqs [OF c] split: if_splits)
  have d: "attempts oc s =
        filter (\<lambda>b. rank (terminalBackend s) \<le> rank b \<and> (b = PowerShellChild \<longrightarrow> isWindows s))
          [NodePty, WslFallback, PowerShellChild]"
    if "fst (spawnPty oc s) = Inl e" and "terminalBackend s \<noteq> PowerShellChild" for e
    using that
    by (cases "terminalBackend s")
       (auto simp: attempts_cases [OF c] spawnPty_eqs [OF c] rank_def split: if_splits)
  have f: "activePtys (on_connection sid oc s) = activePtys s
         \<and> listeners (on_connection sid oc s) = listeners s
         \<and> heap (on_connection sid oc s) = heap s
         \<and> outbox (on_connection sid oc s) = outbox s @ [(sid, unable_notice)]
         \<and> closed (on_connection sid oc s) = closed s @ [sid]"
    if "fst (spawnPty oc s) = Inl e" for e
    using spawnPty_frame [of oc s] by (simp add: on_connection_error [OF that])
  from a m k b g x d f show ?thesis by blast
qed

lemma startup_linux: "startup False True = Inr linux"
  by (simp add: startup_def linux_def)

lemma startup_windows: "startup True True = Inr windows"
  by (simp add: startup_def windows_def)

lemma coherent_linux: "coherent linux" "terminalBackend linux = NodePty" "\<not> isWindows linux"
  by (simp_all add: coherent_def linux_def initial_def)

lemma coherent_windows: "coherent windows" "terminalBackend windows = NodePty" "isWindows windows"
  by (simp_all add: coherent_def windows_def initial_def)

text \<open>
  The theorem of C1 on Windows, where all three strategies fail for socket c3.
\<close>

theorem spawn_attempts_in_order_witness:
  "startup True True = Inr windows \<and> run [] windows = Inr windows
   \<and> attempts none_work windows = [NodePty, WslFallback, PowerShellChild]
   \<and> fst (spawnPty none_work windows) = Inl (SpawnError PowerShellChild)
   \<and> activePtys (on_connection ''c3'' none_work windows) ''c3'' = None
   \<and> outbox (on_connection ''c3'' none_work windows) = [(''c3'', unable_notice)]
   \<and> closed (on_connection ''c3'' none_work windows) = [''c3'']"
proof -
  have r: "run [] windows = Inr windows" by simp
  have e: "fst (spawnPty none_work windows) = Inl (SpawnError PowerShellChild)"
    by (simp add: spawnPty_native [OF coherent_windows(1,2)] none_work_def coherent_windows(3))
  have t: "terminalBackend windows \<noteq> PowerShellChild" by (simp add: coherent_windows)
  from spawn_attempts_in_order [OF startup_windows r, of none_work "''c3''"] e t
  have "attempts none_work windows =
          filter (\<lambda>b. rank (terminalBackend windows) \<le> rank b \<and> (b = PowerShellChild \<longrightarrow> isWindows windows))
            [NodePty, WslFallback, PowerShellChild]"
    and "activePtys (on_connection ''c3'' none_work windows) = activePtys windows"
    and "outbox (on_connection ''c3'' none_work windows) = outbox windows @ [(''c3'', unable_notice)]"
    and "closed (on_connection ''c3'' none_work windows) = closed windows @ [''c3'']"
    by blast+
  then show ?thesis using startup_windows r e
    by (simp add: coherent_windows rank_def) (simp add: windows_def initial_def)
qed

text \<open>
  Claim C1 as stated fails: on a host other than Windows the failure is reported after the
  second strategy, and direct-spawn is not attempted.
\<close>

theorem exhaustion_before_third_strategy:
  "startup False True = Inr linux
   \<and> fst (spawnPty none_work linux) = Inl (SpawnError WslFallback)
   \<and> attempts none_work linux = [NodePty, WslFallback]"
  by (simp add: startup_linux attempts_def spawnPty_native [OF coherent_linux(1,2)] none_work_def
        coherent_linux(3))

subsection \<open>C2: the startup probe\<close>

text \<open>
  Claim C2, as amended. On a Windows host the startup probe never throws: when the native
  capability loads the backend state is native-pty, and when it does not the failure is
  absorbed by setting the state to compatibility-shell with the fallback module loaded,
  and the service continues to start. On any other host the probe does not throw when the
  native capability loads; when it does not, the error is thrown again and the service
  does not start.
\<close>

theorem startup_probe:
  "(win \<or> nl \<longrightarrow>
      (\<exists>s. startup win nl = Inr s \<and> isWindows s = win
          \<and> terminalBackend s = (if nl then NodePty else WslFallback)
          \<and> pty s = Some (if nl then NodePtyModule else FallbackModule)))
   \<and> (\<not> win \<and> \<not> nl \<longrightarrow> startup win nl = Inl ImportError)"
  by (simp add: startup_def initial_def loadFallback_def Let_def)

text \<open>
  The theorem of C2 on Windows without the native capability.
\<close>

theorem startup_probe_witness:
  "\<exists>s. startup True False = Inr s \<and> isWindows s = True \<and> terminalBackend s = WslFallback
       \<and> pty s = Some FallbackModule"
  using startup_probe [of True False] by simp

text \<open>
  Claim C2 as stated fails: off Windows, a native capability that does not load stops the
  startup with its error.
\<close>

theorem startup_probe_throws: "startup False False = Inl ImportError"
  by (simp add: startup_def)

subsection \<open>C3: demotion\<close>

text \<open>
  The backend state never moves back: along every run its rank does not decrease, once it
  has left native-pty it stays away from it, and no later connection attempts native-pty
  again.
\<close>

lemma backend_never_promoted:
  assumes "startup win nl = Inr s0" and "run evs s0 = Inr s" and "run evs' s = Inr s'"
  shows "rank (terminalBackend s) \<le> rank (terminalBackend s')"
    and "terminalBackend s \<noteq> NodePty \<Longrightarrow> terminalBackend s' \<noteq> NodePty"
    and "terminalBackend s \<noteq> NodePty \<Longrightarrow> NodePty \<notin> set (attempts oc s')"
proof -
  have c: "coherent s" using reachable_coherent [OF assms(1,2)] by simp
  from run_coherent [OF assms(3) c]
  have c': "coherent s'" and r: "rank (terminalBackend s) \<le> rank (terminalBackend s')" by simp_all
  show "rank (terminalBackend s) \<le> rank (terminalBackend s')" by (rule r)
  show n: "terminalBackend s' \<noteq> NodePty" if "terminalBackend s \<noteq> NodePty"
    using that r by (cases "terminalBackend s") (auto simp: rank_def)
  show "NodePty \<notin> set (attempts oc s')" if "terminalBackend s \<noteq> NodePty"
    using n [OF that] by (cases "terminalBackend s'") (auto simp: attempts_cases [OF c'])
qed

lemma after_c1_eq:
  "after_c1 = windows\<lparr>fallbackPty := Some FallbackModule, terminalBackend := PowerShellChild,
       pty := Some FallbackModule, spawn_log := [NodePty, WslFallback, PowerShellChild],
       heap := [PowerShell (powershell_onData ''c1'' powershell_new)],
       activePtys := [''c1'' \<mapsto> 0], listeners := [''c1'' \<mapsto> 0]\<rparr>"
  by (simp add: after_c1_def on_connection_def spawnPty_native [OF coherent_windows(1,2)]
        only_powershell_def coherent_windows(3))
     (simp add: windows_def initial_def)

lemma coherent_after_c1: "coherent after_c1" "terminalBackend after_c1 = PowerShellChild"
  by (simp_all add: after_c1_eq coherent_def windows_def initial_def)

text \<open>
  Claim C3: once the backend state has left native-pty it never returns, and every later
  connection starts on the currently demoted strategy. The first half holds
  (\<open>backend_never_promoted\<close>). The second fails once the state is direct-spawn: on Windows,
  after a connection c1 that only PowerShell could serve, the state is
  \<^verbatim>\<open>'powershell-child'\<close>, yet the next connection c2 starts on the compatibility shell,
  and when that throws again it is refused, direct-spawn is not attempted, and no session
  is registered for c2, although PowerShell starts on this host.
\<close>

theorem direct_spawn_not_sticky:
  "startup True True = Inr windows
   \<and> run [Connection ''c1'' only_powershell, Connection ''c2'' only_powershell] windows
       = Inr (on_connection ''c2'' only_powershell after_c1)
   \<and> activePtys after_c1 ''c1'' = Some 0
   \<and> terminalBackend after_c1 = PowerShellChild
   \<and> attempts only_powershell after_c1 = [WslFallback]
   \<and> fst (spawnPty only_powershell after_c1) = Inl (SpawnError WslFallback)
   \<and> activePtys (on_connection ''c2'' only_powershell after_c1) ''c2'' = None
   \<and> closed (on_connection ''c2'' only_powershell after_c1) = [''c2'']"
proof -
  have e: "fst (spawnPty only_powershell after_c1) = Inl (SpawnError WslFallback)"
    by (simp add: spawnPty_powershell [OF coherent_after_c1] only_powershell_def)
  have a: "attempts only_powershell after_c1 = [WslFallback]"
    by (simp add: attempts_cases [OF coherent_after_c1(1)] coherent_after_c1(2))
  have r: "run [Connection ''c1'' only_powershell, Connection ''c2'' only_powershell] windows
       = Inr (on_connection ''c2'' only_powershell after_c1)"
    by (simp add: after_c1_def)
  have m: "activePtys (on_connection ''c2'' only_powershell after_c1) ''c2'' = None"
    "closed (on_connection ''c2'' only_powershell after_c1) = [''c2'']"
    using spawnPty_frame [of only_powershell after_c1]
    by (simp_all add: on_connection_error [OF e]) (simp_all add: after_c1_eq windows_def initial_def)
  have b: "activePtys after_c1 ''c1'' = Some 0" by (simp add: after_c1_eq)
  from startup_windows r b coherent_after_c1(2) a e m show ?thesis by simp
qed

subsection \<open>C9: the health probe\<close>

text \<open>
  Claim C9, as amended. The health probe is a synchronous query that returns the liveness
  status \<^verbatim>\<open>'ok'\<close>, the name of the service and the time of the query, for every state of
  the backend selector; the answer does not depend on the backend state and does not name
  the active strategy.
\<close>

theorem health_reports_liveness_only:
  "status (health s now) = ''ok'' \<and> service (health s now) = ''Project Swivel PTY engine''
   \<and> timestamp (health s now) = now
   \<and> health (s\<lparr>terminalBackend := b\<rparr>) now = health s now"
  by (simp add: health_def)

lemma after_demotion_eq:
  "after_demotion = linux\<lparr>fallbackPty := Some FallbackModule, terminalBackend := WslFallback,
       pty := Some FallbackModule, spawn_log := [NodePty, WslFallback],
       heap := [Wsl (PtyProcess_onData ''c1'' (PtyProcess False ''bash'' []))],
       activePtys := [''c1'' \<mapsto> 0], listeners := [''c1'' \<mapsto> 0]\<rparr>"
  by (simp add: after_demotion_def on_connection_def spawnPty_native [OF coherent_linux(1,2)]
        only_pipes_def coherent_linux(3) shellCommand_def)
     (simp add: linux_def initial_def)

text \<open>
  Claim C9 as stated fails: before and after a demotion from native-pty to
  compatibility-shell the health probe gives the same answer.
\<close>

theorem health_hides_backend:
  "run [Connection ''c1'' only_pipes] linux = Inr after_demotion
   \<and> terminalBackend linux = NodePty \<and> terminalBackend after_demotion = WslFallback
   \<and> health linux ''2026-01-01T00:00:00.000Z'' = health after_demotion ''2026-01-01T00:00:00.000Z''"
  by (simp add: after_demotion_def [symmetric] coherent_linux health_def)
     (simp add: after_demotion_eq)

subsection \<open>C8: kill\<close>



lemma native_session_eq:
  "native_session = linux\<lparr>spawn_log := [NodePty],
       heap := [Native \<lparr>n_listener = Some ''n1'', n_written = [], n_kill_calls = 0,
                         n_kill_throws = True\<rparr>],
       activePtys := [''n1'' \<mapsto> 0], listeners := [''n1'' \<mapsto> 0]\<rparr>"
  by (simp add: native_session_def on_connection_def spawnPty_native [OF coherent_linux(1,2)]
        kill_fails_def)
     (simp add: linux_def initial_def)


subsection \<open>C10: output without a subscriber\<close>

text \<open>
  Claim C10. While no subscriber is registered with \<^verbatim>\<open>onData\<close>, an output chunk and the
  exit notice are discarded: no subscriber is called and nothing raises. Nothing is kept
  for later: after a subscriber is registered, a chunk (or the exit notice) is delivered
  to it alone and nothing else with it. A new subscriber replaces the previous one.
\<close>

theorem no_subscriber_discards:
  assumes "onDataCallback p = None"
  shows "PtyProcess_data d p = [] \<and> PtyProcess_exit p = []
       \<and> emitData d p = [] \<and> powershell_exit p = []
       \<and> PtyProcess_data d' (PtyProcess_onData cb p) = [(cb, toString d')]
       \<and> emitData d' (powershell_onData cb p) = [(cb, toString d')]
       \<and> PtyProcess_exit (PtyProcess_onData cb p) = [(cb, exited_notice)]
       \<and> powershell_exit (powershell_onData cb p) = [(cb, powershell_notice)]
       \<and> PtyProcess_data d' (PtyProcess_onData cb' (PtyProcess_onData cb p)) = [(cb', toString d')]
       \<and> emitData d' (powershell_onData cb' (powershell_onData cb p)) = [(cb', toString d')]
       \<and> PtyProcess_onData cb' (PtyProcess_onData cb p) = PtyProcess_onData cb' p
       \<and> powershell_onData cb' (powershell_onData cb p) = powershell_onData cb' p"
  using assms
  by (simp add: PtyProcess_data_def PtyProcess_exit_def emitData_def powershell_exit_def
        PtyProcess_onData_def powershell_onData_def)

text \<open>
  The theorem of C10 on a fresh PowerShell handle.
\<close>

theorem no_subscriber_discards_witness:
  "onDataCallback powershell_new = None
   \<and> emitData (ascii ''early'') powershell_new = []
   \<and> powershell_exit powershell_new = []
   \<and> PtyProcess_data (ascii ''early'') powershell_new = []
   \<and> emitData (ascii ''late'') (powershell_onData ''c1'' powershell_new) = [(''c1'', toString (ascii ''late''))]
   \<and> emitData (ascii ''late'') (powershell_onData ''c2'' (powershell_onData ''c1'' powershell_new))
       = [(''c2'', toString (ascii ''late''))]"
proof -
  have n: "onDataCallback powershell_new = None" by (simp add: powershell_new_def)
  from no_subscriber_discards [OF n, of "ascii ''early''" "ascii ''late''" "''c1''" "''c2''"]
       no_subscriber_discards [OF n, of "ascii ''early''" "ascii ''late''" "''c2''" "''c1''"] n
  show ?thesis by simp
qed

subsection \<open>C5: teardown\<close>

lemma on_disconnect_absent: "activePtys s sid = None \<Longrightarrow> on_disconnect sid s = s"
  by (simp add: on_disconnect_def)

lemma on_disconnect_registry: "activePtys (on_disconnect sid s) = (activePtys s)(sid := None)"
  by (auto simp: on_disconnect_def split: option.splits sum.splits)

text \<open>
  Claim C5. The listener of \<^verbatim>\<open>disconnect\<close> is the teardown. It always returns. When a
  session exists it kills the handle and removes the mapping: the process of a pipe-based
  handle that still runs and has not been killed is sent one signal and is marked killed,
  a process that was killed before or has exited is left as it is; the \<^verbatim>\<open>kill\<close> of a
  native handle is called, and its exception, if any, is caught. Every other handle, the
  listeners and the output are left alone. Without a session the teardown changes
  nothing, so a second teardown is a no-op and repeated teardowns reach the same state.
\<close>

theorem teardown_idempotent:
  "(activePtys s sid = None \<longrightarrow> on_disconnect sid s = s)
   \<and> on_disconnect sid (on_disconnect sid s) = on_disconnect sid s
   \<and> activePtys (on_disconnect sid s) = (activePtys s)(sid := None)
   \<and> (\<forall>r. activePtys s sid = Some r \<and> r < length (heap s) \<longrightarrow>
         length (heap (on_disconnect sid s)) = length (heap s)
         \<and> (\<forall>i. i \<noteq> r \<longrightarrow> heap (on_disconnect sid s) ! i = heap s ! i)
         \<and> (\<forall>p. heap s ! r = Wsl p \<longrightarrow> heap (on_disconnect sid s) ! r = Wsl (PtyProcess_kill p))
         \<and> (\<forall>p. heap s ! r = PowerShell p \<longrightarrow>
               heap (on_disconnect sid s) ! r = PowerShell (powershell_kill p))
         \<and> (\<forall>p. heap s ! r = Wsl p \<longrightarrow>
               heap (on_disconnect sid s) ! r =
                 Wsl (p\<lparr>process := (process p)
                   \<lparr>killed := killed (process p) \<or> alive (process p),
                    signals := signals (process p)
                      + (if alive (process p) \<and> \<not> killed (process p) then 1 else 0)\<rparr>\<rparr>))
         \<and> (\<forall>p. heap s ! r = PowerShell p \<longrightarrow>
               heap (on_disconnect sid s) ! r =
                 PowerShell (p\<lparr>process := (process p)
                   \<lparr>killed := killed (process p) \<or> alive (process p),
                    signals := signals (process p)
                      + (if alive (process p) \<and> \<not> killed (process p) then 1 else 0)\<rparr>\<rparr>))
         \<and> (\<forall>n. heap s ! r = Native n \<longrightarrow>
               heap (on_disconnect sid s) ! r =
                 (if n_kill_throws n then Native n
                  else Native (n\<lparr>n_kill_calls := Suc (n_kill_calls n)\<rparr>))))
   \<and> listeners (on_disconnect sid s) = listeners s
   \<and> outbox (on_disconnect sid s) = outbox s"
proof -
  have a: "activePtys (on_disconnect sid s) sid = None"
    by (simp add: on_disconnect_registry)
  have i: "on_disconnect sid (on_disconnect sid s) = on_disconnect sid s"
    by (rule on_disconnect_absent [OF a])
  have k: "PtyProcess_kill p =
       p\<lparr>process := (process p)
          \<lparr>killed := killed (process p) \<or> alive (process p),
           signals := signals (process p)
             + (if alive (process p) \<and> \<not> killed (process p) then 1 else 0)\<rparr>\<rparr>" for p
    by (cases "alive (process p)"; cases "killed (process p)")
       (simp_all add: PtyProcess_kill_def child_kill_def)
  have k': "powershell_kill p =
       p\<lparr>process := (process p)
          \<lparr>killed := killed (process p) \<or> alive (process p),
           signals := signals (process p)
             + (if alive (process p) \<and> \<not> killed (process p) then 1 else 0)\<rparr>\<rparr>" for p
    by (cases "alive (process p)"; cases "killed (process p)")
       (simp_all add: powershell_kill_def child_kill_def)
  have h: "\<forall>r. activePtys s sid = Some r \<and> r < length (heap s) \<longrightarrow>
         length (heap (on_disconnect sid s)) = length (heap s)
         \<and> (\<forall>i. i \<noteq> r \<longrightarrow> heap (on_disconnect sid s) ! i = heap s ! i)
         \<and> (\<forall>p. heap s ! r = Wsl p \<longrightarrow> heap (on_disconnect sid s) ! r = Wsl (PtyProcess_kill p))
         \<and> (\<forall>p. heap s ! r = PowerShell p \<longrightarrow>
               heap (on_disconnect sid s) ! r = PowerShell (powershell_kill p))
         \<and> (\<forall>n. heap s ! r = Native n \<longrightarrow>
               heap (on_disconnect sid s) ! r =
                 (if n_kill_throws n then Native n
                  else Native (n\<lparr>n_kill_calls := Suc (n_kill_calls n)\<rparr>)))"
    by (auto simp: on_disconnect_def split: sum.splits)
  have f: "listeners (on_disconnect sid s) = listeners s \<and> outbox (on_disconnect sid s) = outbox s"
    by (auto simp: on_disconnect_def split: option.splits sum.splits)
  from h k k' have h': "\<forall>r. activePtys s sid = Some r \<and> r < length (heap s) \<longrightarrow>
         (\<forall>p. heap s ! r = Wsl p \<longrightarrow>
               heap (on_disconnect sid s) ! r =
                 Wsl (p\<lparr>process := (process p)
                   \<lparr>killed := killed (process p) \<or> alive (process p),
                    signals := signals (process p)
                      + (if alive (process p) \<and> \<not> killed (process p) then 1 else 0)\<rparr>\<rparr>))
         \<and> (\<forall>p. heap s ! r = PowerShell p \<longrightarrow>
               heap (on_disconnect sid s) ! r =
                 PowerShell (p\<lparr>process := (process p)
                   \<lparr>killed := killed (process p) \<or> alive (process p),
                    signals := signals (process p)
                      + (if alive (process p) \<and> \<not> killed (process p) then 1 else 0)\<rparr>\<rparr>))"
    by metis
  from i h h' f on_disconnect_absent [of s sid] on_disconnect_registry [of sid s]
  show ?thesis by blast
qed

text \<open>
  The theorem of C5 on a session c1 with a running process, and on a socket c9 that has
  no session.
\<close>

theorem teardown_idempotent_witness:
  "activePtys after_demotion ''c1'' = Some 0 \<and> 0 < length (heap after_demotion)
   \<and> heap after_demotion ! 0 = Wsl (PtyProcess_onData ''c1'' (PtyProcess False ''bash'' []))
   \<and> heap (on_disconnect ''c1'' after_demotion) ! 0
       = Wsl \<lparr>process = (childSpawn ''bash'' [])\<lparr>killed := True, signals := 1\<rparr>,
              onDataCallback = Some ''c1''\<rparr>
   \<and> activePtys (on_disconnect ''c1'' after_demotion) ''c1'' = None
   \<and> on_disconnect ''c1'' (on_disconnect ''c1'' after_demotion) = on_disconnect ''c1'' after_demotion
   \<and> activePtys after_demotion ''c9'' = None
   \<and> on_disconnect ''c9'' after_demotion = after_demotion"
proof -
  define p where "p = PtyProcess_onData ''c1'' (PtyProcess False ''bash'' [])"
  have a: "activePtys after_demotion ''c1'' = Some 0" "0 < length (heap after_demotion)"
    "heap after_demotion ! 0 = Wsl p"
    "activePtys after_demotion ''c9'' = None"
    by (simp_all add: after_demotion_eq p_def)
  from teardown_idempotent [of after_demotion "''c1''"] a(1,2,3)
  have "heap (on_disconnect ''c1'' after_demotion) ! 0 =
          Wsl (p\<lparr>process := (process p)
                   \<lparr>killed := killed (process p) \<or> alive (process p),
                    signals := signals (process p)
                      + (if alive (process p) \<and> \<not> killed (process p) then 1 else 0)\<rparr>\<rparr>)"
    and "activePtys (on_disconnect ''c1'' after_demotion) = (activePtys after_demotion)(''c1'' := None)"
    and "on_disconnect ''c1'' (on_disconnect ''c1'' after_demotion) = on_disconnect ''c1'' after_demotion"
    by blast+
  moreover from teardown_idempotent [of after_demotion "''c9''"] a(4)
  have "on_disconnect ''c9'' after_demotion = after_demotion" by blast
  ultimately show ?thesis using a
    by (simp add: p_def PtyProcess_onData_def PtyProcess_def childSpawn_def)
qed

subsection \<open>C4: the exit of the process\<close>

lemma session_wired:
  assumes "startup win nl = Inr s0" and "run evs s0 = Inr s" and "activePtys s sid = Some r"
  shows "listeners s sid = Some r" and "r < length (heap s)" and "subscriber (heap s ! r) = Some sid"
  using reachable_wired [OF assms(1,2)] assms(3) unfolding wired_def by blast+

text \<open>
  Claim C4, as amended. Take any session whose bound process exits spontaneously. On a
  pipe-based handle (compatibility-shell or direct-spawn) exactly one final notice is
  emitted on that connection's outbound channel: the exit emits it and closes the input
  stream, and a repeated delivery of the exit changes nothing. On a native-pty handle no
  notice is emitted, since index.js registers no exit listener: the exit changes nothing.
  On no handle does the exit perform a teardown: the session stays in the registry until
  the connection disconnects, which removes it.
\<close>

theorem exit_notice_without_teardown:
  assumes "startup win nl = Inr s0" and "run evs s0 = Inr s"
    and "activePtys s sid = Some r"
  shows "step (ProcExit r) s = Inr (proc_exit r s)
       \<and> (\<forall>p. heap s ! r = Wsl p \<and> alive (process p) \<longrightarrow>
             outbox (proc_exit r s) = outbox s @ [(sid, exited_notice)]
             \<and> \<not> writable (heap (proc_exit r s) ! r))
       \<and> (\<forall>p. heap s ! r = PowerShell p \<and> alive (process p) \<longrightarrow>
             outbox (proc_exit r s) = outbox s @ [(sid, powershell_notice)]
             \<and> \<not> writable (heap (proc_exit r s) ! r))
       \<and> (\<forall>n. heap s ! r = Native n \<longrightarrow> proc_exit r s = s)
       \<and> activePtys (proc_exit r s) = activePtys s
       \<and> proc_exit r (proc_exit r s) = proc_exit r s
       \<and> activePtys (on_disconnect sid (proc_exit r s)) sid = None"
proof -
  note w = session_wired [OF assms(1,2,3)]
  have a: "outbox (proc_exit r s) = outbox s @ [(sid, exited_notice)]
         \<and> \<not> writable (heap (proc_exit r s) ! r)"
    if "heap s ! r = Wsl p" and "alive (process p)" for p
  proof -
    from that(1) w(3) have "onDataCallback p = Some sid" by simp
    with that w(2) show ?thesis
      by (simp add: proc_exit_def PtyProcess_exit_def child_exit_def)
  qed
  have b: "outbox (proc_exit r s) = outbox s @ [(sid, powershell_notice)]
         \<and> \<not> writable (heap (proc_exit r s) ! r)"
    if "heap s ! r = PowerShell p" and "alive (process p)" for p
  proof -
    from that(1) w(3) have "onDataCallback p = Some sid" by simp
    with that w(2) show ?thesis
      by (simp add: proc_exit_def powershell_exit_def child_exit_def)
  qed
  have c: "proc_exit r s = s" if "heap s ! r = Native n" for n
    using that by (simp add: proc_exit_def)
  have d: "activePtys (proc_exit r s) = activePtys s"
    by (auto simp: proc_exit_def split: handle.splits)
  have e: "proc_exit r (proc_exit r s) = proc_exit r s"
    by (cases "heap s ! r") (auto simp: proc_exit_def child_exit_def)
  have f: "activePtys (on_disconnect sid (proc_exit r s)) sid = None"
    by (simp add: on_disconnect_registry)
  from a b c d e f show ?thesis by auto
qed

lemma session5_eq:
  "session5 = linux\<lparr>fallbackPty := Some FallbackModule, terminalBackend := WslFallback,
       pty := Some FallbackModule, spawn_log := [NodePty, WslFallback],
       heap := [Wsl (PtyProcess_onData ''c5'' (PtyProcess False ''bash'' []))],
       activePtys := [''c5'' \<mapsto> 0], listeners := [''c5'' \<mapsto> 0]\<rparr>"
  by (simp add: session5_def on_connection_def spawnPty_native [OF coherent_linux(1,2)]
        only_pipes_def coherent_linux(3) shellCommand_def)
     (simp add: linux_def initial_def)

lemma session5_facts:
  "run [Connection ''c5'' only_pipes] linux = Inr session5"
  "activePtys session5 ''c5'' = Some 0"
  "heap session5 ! 0 = Wsl (PtyProcess_onData ''c5'' (PtyProcess False ''bash'' []))"
  "alive (process (PtyProcess_onData ''c5'' (PtyProcess False ''bash'' [])))"
  "outbox session5 = []"
  by (simp_all add: session5_def [symmetric])
     (simp_all add: session5_eq PtyProcess_onData_def PtyProcess_def childSpawn_def linux_def initial_def)

text \<open>
  The theorem of C4 on the pipe-based session c5 and on the native session n1.
\<close>

theorem exit_notice_without_teardown_witness:
  "startup False True = Inr linux \<and> run [Connection ''c5'' only_pipes] linux = Inr session5
   \<and> activePtys session5 ''c5'' = Some 0
   \<and> heap session5 ! 0 = Wsl (PtyProcess_onData ''c5'' (PtyProcess False ''bash'' []))
   \<and> alive (process (PtyProcess_onData ''c5'' (PtyProcess False ''bash'' [])))
   \<and> outbox (proc_exit 0 session5) = [(''c5'', exited_notice)]
   \<and> proc_exit 0 (proc_exit 0 session5) = proc_exit 0 session5
   \<and> activePtys (on_disconnect ''c5'' (proc_exit 0 session5)) ''c5'' = None
   \<and> run [Connection ''n1'' kill_fails] linux = Inr native_session
   \<and> activePtys native_session ''n1'' = Some 0
   \<and> made_by (heap native_session ! 0) = NodePty
   \<and> proc_exit 0 native_session = native_session
   \<and> outbox native_session = []"
proof -
  from exit_notice_without_teardown [OF startup_linux session5_facts(1,2)] session5_facts(3,4)
  have "outbox (proc_exit 0 session5) = outbox session5 @ [(''c5'', exited_notice)]"
    and "proc_exit 0 (proc_exit 0 session5) = proc_exit 0 session5"
    and "activePtys (on_disconnect ''c5'' (proc_exit 0 session5)) ''c5'' = None"
    by blast+
  then have p: "outbox (proc_exit 0 session5) = [(''c5'', exited_notice)]"
    "proc_exit 0 (proc_exit 0 session5) = proc_exit 0 session5"
    "activePtys (on_disconnect ''c5'' (proc_exit 0 session5)) ''c5'' = None"
    by (simp_all add: session5_facts(5))
  have n: "run [Connection ''n1'' kill_fails] linux = Inr native_session"
    "activePtys native_session ''n1'' = Some 0"
    "heap native_session ! 0 = Native \<lparr>n_listener = Some ''n1'', n_written = [], n_kill_calls = 0,
                         n_kill_throws = True\<rparr>"
    "outbox native_session = []"
    by (simp_all add: native_session_def [symmetric])
       (simp_all add: native_session_eq linux_def initial_def)
  from exit_notice_without_teardown [OF startup_linux n(1,2)] n(3)
  have "proc_exit 0 native_session = native_session" by blast
  moreover have "made_by (heap native_session ! 0) = NodePty" by (simp add: n(3))
  ultimately show ?thesis using startup_linux session5_facts(1-4) p n(1,2,4) by blast
qed

text \<open>
  Claim C4 as stated fails twice: after the process of the pipe-based session c5 has exited
  and its notice has been emitted, c5 is still in the registry; and after the process of
  the native session n1 has exited, no notice has been emitted and n1 is still in the
  registry.
\<close>

theorem exit_leaves_session_registered:
  "startup False True = Inr linux
   \<and> run [Connection ''c5'' only_pipes, ProcExit 0] linux = Inr (proc_exit 0 session5)
   \<and> outbox (proc_exit 0 session5) = [(''c5'', exited_notice)]
   \<and> activePtys (proc_exit 0 session5) ''c5'' = Some 0
   \<and> run [Connection ''n1'' kill_fails, ProcExit 0] linux = Inr (proc_exit 0 native_session)
   \<and> made_by (heap native_session ! 0) = NodePty
   \<and> outbox (proc_exit 0 native_session) = []
   \<and> activePtys (proc_exit 0 native_session) ''n1'' = Some 0"
proof -
  have a: "run [Connection ''c5'' only_pipes, ProcExit 0] linux = Inr (proc_exit 0 session5)"
    "run [Connection ''n1'' kill_fails, ProcExit 0] linux = Inr (proc_exit 0 native_session)"
    by (simp_all add: session5_def native_session_def)
  have b: "outbox (proc_exit 0 session5) = [(''c5'', exited_notice)]"
    "activePtys (proc_exit 0 session5) ''c5'' = Some 0"
    by (simp_all add: session5_eq proc_exit_def PtyProcess_onData_def PtyProcess_def childSpawn_def
        PtyProcess_exit_def linux_def initial_def)
  have c: "made_by (heap native_session ! 0) = NodePty"
    "outbox (proc_exit 0 native_session) = []"
    "activePtys (proc_exit 0 native_session) ''n1'' = Some 0"
    by (simp_all add: native_session_eq proc_exit_def linux_def initial_def)
  from startup_linux a b c show ?thesis by blast
qed

subsection \<open>C6: the relay of input\<close>




text \<open>
  The decoder on well-formed sequences of two, three and four bytes, on an overlong form,
  on a surrogate and on truncated sequences.
\<close>

lemma toString_examples:
  "toString [0xC3, 0xA9] = [0xC3, 0xA9]"
  "toString [0xE2, 0x82, 0xAC] = [0xE2, 0x82, 0xAC]"
  "toString [0xF0, 0x9F, 0x98, 0x80] = [0xF0, 0x9F, 0x98, 0x80]"
  "toString [0xC0, 0x80] = replacement @ replacement"
  "toString [0xED, 0xA0, 0x80] = replacement @ replacement @ replacement"
  "toString [0xE2, 0x82] = replacement"
  "toString [0xE2, 0x82, 0x41] = replacement @ [0x41]"
  by (simp_all add: toString_def)































subsection \<open>C7: input after exit and after teardown\<close>










end
